theory Spec2Isabelle
  imports Complex_Main
begin

section \<open>Python strings and paths\<close>

text \<open>
  A Python \<open>str\<close> is a sequence of Unicode code points. Here a \<open>char\<close> stands for one
  code point of the range U+0000 to U+00FF (so \<open>CHR 0xE9\<close> is the single code point of
  e-acute, not a byte of an encoding), and a \<open>string\<close> for a \<open>str\<close> made of such code
  points. The character tests below are the ones of the Python runtime on that range.
\<close>

definition isalnum :: "char \<Rightarrow> bool" where
  \<comment> \<open>\<open>c.isalnum()\<close>: digits, ASCII letters, and the letters and numbers of U+00AA to U+00FF\<close>
  "isalnum c =
     (let n = (of_char c :: nat) in
        (48 \<le> n \<and> n \<le> 57) \<or> (65 \<le> n \<and> n \<le> 90) \<or> (97 \<le> n \<and> n \<le> 122)
        \<or> n = 170 \<or> n = 178 \<or> n = 179 \<or> n = 181 \<or> n = 185 \<or> n = 186
        \<or> (188 \<le> n \<and> n \<le> 190) \<or> (192 \<le> n \<and> n \<le> 214)
        \<or> (216 \<le> n \<and> n \<le> 246) \<or> (248 \<le> n \<and> n \<le> 255))"

definition isspace :: "char \<Rightarrow> bool" where
  \<comment> \<open>\<open>c.isspace()\<close>, the separators of \<open>str.split()\<close>\<close>
  "isspace c =
     (let n = (of_char c :: nat) in
        (9 \<le> n \<and> n \<le> 13) \<or> (28 \<le> n \<and> n \<le> 32) \<or> n = 133 \<or> n = 160)"

definition lower_char :: "char \<Rightarrow> char" where
  "lower_char c =
     (let n = (of_char c :: nat) in
        if (65 \<le> n \<and> n \<le> 90) \<or> (192 \<le> n \<and> n \<le> 214) \<or> (216 \<le> n \<and> n \<le> 222)
        then char_of (n + 32) else c)"

definition lower :: "string \<Rightarrow> string" where
  \<comment> \<open>\<open>s.lower()\<close>\<close>
  "lower s = map lower_char s"

definition replace_char :: "char \<Rightarrow> char \<Rightarrow> string \<Rightarrow> string" where
  \<comment> \<open>\<open>s.replace(old, new)\<close> for one-character \<open>old\<close> and \<open>new\<close>\<close>
  "replace_char old new s = map (\<lambda>c. if c = old then new else c) s"

fun join :: "string \<Rightarrow> string list \<Rightarrow> string" where
  \<comment> \<open>\<open>sep.join(xs)\<close>\<close>
  "join sep [] = []"
| "join sep [x] = x"
| "join sep (x # y # ys) = x @ sep @ join sep (y # ys)"

fun split_from :: "string \<Rightarrow> string \<Rightarrow> string list" where
  \<comment> \<open>the scan of \<open>s.split()\<close>; the first argument is the token read so far\<close>
  "split_from cur [] = (if cur = [] then [] else [cur])"
| "split_from cur (c # cs) =
     (if isspace c then (if cur = [] then split_from [] cs else cur # split_from [] cs)
      else split_from (cur @ [c]) cs)"

definition split :: "string \<Rightarrow> string list" where
  \<comment> \<open>\<open>s.split()\<close>: the maximal runs of non-whitespace\<close>
  "split s = split_from [] s"

definition startswith :: "string \<Rightarrow> string \<Rightarrow> bool" where
  \<comment> \<open>\<open>s.startswith(p)\<close>\<close>
  "startswith s p = (take (length p) s = p)"

fun str_nat :: "nat \<Rightarrow> string" where
  "str_nat n =
     (if n < 10 then [char_of (48 + n)] else str_nat (n div 10) @ [char_of (48 + n mod 10)])"

definition str_int :: "int \<Rightarrow> string" where
  \<comment> \<open>\<open>str(i)\<close>, as an f-string renders an \<open>int\<close>\<close>
  "str_int i = (if i < 0 then CHR ''-'' # str_nat (nat (- i)) else str_nat (nat i))"

definition zfill :: "nat \<Rightarrow> string \<Rightarrow> string" where
  "zfill w s = replicate (w - length s) (CHR ''0'') @ s"

definition path_join :: "string \<Rightarrow> string \<Rightarrow> string" where
  \<comment> \<open>\<open>os.path.join(a, b)\<close> of \<open>posixpath\<close>\<close>
  "path_join a b =
     (if startswith b ''/'' then b
      else if a = [] \<or> last a = CHR ''/'' then a @ b
      else a @ ''/'' @ b)"

section \<open>Dimension normalisation and keyword sanitisation\<close>

definition round16 :: "int \<Rightarrow> int" where
  \<comment> \<open>\<open>(x // 16) * 16\<close>\<close>
  "round16 x = (x div 16) * 16"

definition sanitize :: "string \<Rightarrow> string" where
  \<comment> \<open>\<open>"".join(c for c in keyword if c.isalnum() or c in ('_', '-'))\<close>\<close>
  "sanitize keyword = filter (\<lambda>c. isalnum c \<or> c = CHR ''_'' \<or> c = CHR ''-'') keyword"

definition in_keyword_class :: "char \<Rightarrow> bool" where
  \<comment> \<open>the specification's character class \<open>[A-Za-z0-9_-]\<close>\<close>
  "in_keyword_class c =
     (let n = (of_char c :: nat) in
        (of_char (CHR ''A'') \<le> n \<and> n \<le> of_char (CHR ''Z''))
        \<or> (of_char (CHR ''a'') \<le> n \<and> n \<le> of_char (CHR ''z''))
        \<or> (of_char (CHR ''0'') \<le> n \<and> n \<le> of_char (CHR ''9''))
        \<or> c = CHR ''_'' \<or> c = CHR ''-'')"


section \<open>The manifest\<close>

text \<open>
  A manifest entry is a JSON object whose fields have the types of the manifest schema;
  a field is \<open>None\<close> when the key is absent. Entries with fields of other JSON types
  (on which the scripts raise \<open>TypeError\<close> or \<open>AttributeError\<close>) are outside this
  model. The guidance scale is a float that is only carried through, never computed with.
\<close>

record entry =
  item_id :: "string option"
  item_Prompt :: "string option"
  item_description :: "string option"
  item_title :: "string option"
  item_tags :: "string list option"
  item_NegativePrompt :: "string option"
  item_Width :: "int option"
  item_Height :: "int option"
  item_Seed :: "int option"
  item_Steps :: "int option"
  item_CFG :: "rat option"

text \<open>
  What \<open>json.load\<close> can return at the top level and under the key \<open>image_prompts\<close>:
  an array of entries, an object (its keys in order), a string, or an atom (a number,
  \<open>true\<close>, \<open>false\<close> or \<open>null\<close>).
\<close>

datatype json = JArray "entry list" | JObject "(string \<times> json) list" | JString string | JAtom

datatype manifest_file = NoFile | BadJson | Json json

datatype exn =
  KeyError | TypeError | AttributeError | FileNotFoundError | JSONDecodeError | CapabilityError

definition truthy :: "'a list option \<Rightarrow> bool" where
  \<comment> \<open>the truth value of \<open>d.get(k)\<close> for a string or a list: present and not empty\<close>
  "truthy v = (case v of None \<Rightarrow> False | Some x \<Rightarrow> x \<noteq> [])"

definition get :: "'a option \<Rightarrow> 'a \<Rightarrow> 'a" where
  \<comment> \<open>\<open>d.get(k, default)\<close>\<close>
  "get v d = (case v of None \<Rightarrow> d | Some x \<Rightarrow> x)"

definition manifest_items :: "json \<Rightarrow> entry list" where
  \<comment> \<open>z_image_batch.py, lines 94 to 96\<close>
  "manifest_items data =
     (let items = (case data of JObject kv \<Rightarrow> get (map_of kv ''image_prompts'') (JArray [])
                   | _ \<Rightarrow> data)
      in case items of JArray es \<Rightarrow> es | _ \<Rightarrow> [])"

section \<open>Output lines, the file system, the clock\<close>

text \<open>
  Each \<open>print\<close> statement of the two scripts is a constructor carrying the values the
  statement interpolates.
\<close>

datatype line =
    Created_directory string          \<comment> \<open>\<open>Created directory: {target_dir}\<close>\<close>
  | Manifest_not_found                \<comment> \<open>\<open>Error: graphics_batch.json not found.\<close>\<close>
  | Found_files nat                   \<comment> \<open>\<open>Found {n} files in source directory.\<close>\<close>
  | No_file_found string              \<comment> \<open>\<open>WARNING: No file found for ID: {img_id}\<close>\<close>
  | Copied string string              \<comment> \<open>\<open>Copied: {best_candidate} -> {dest_filename}\<close>\<close>
  | Organized nat                     \<comment> \<open>\<open>Successfully organized {moved_count} assets.\<close>\<close>
  | Loading_model string              \<comment> \<open>\<open>Loading model: {model_id}...\<close>\<close>
  | Error_loading_pipeline            \<comment> \<open>\<open>Error loading pipeline: {e}\<close>\<close>
  | File_not_found string             \<comment> \<open>\<open>Error: File not found {path}\<close>\<close>
  | Please_provide                    \<comment> \<open>\<open>Please provide --Prompt or --PromptJsonFile\<close>\<close>
  | Found_prompts nat                 \<comment> \<open>\<open>Found {n} prompts to process.\<close>\<close>
  | Processing nat nat                \<comment> \<open>\<open>Processing {i+1}/{n}\<close>\<close>
  | Adjusted_dimensions int int int int
      \<comment> \<open>\<open>Warning: Adjusted dimensions from {orig_w}x{orig_h} to {w}x{h} (must be divisible by 16)\<close>\<close>
  | Generating string                 \<comment> \<open>\<open>Generating: {prompt[:50]}...\<close>\<close>
  | Size_seed int int int int rat     \<comment> \<open>\<open>Size: {w}x{h}, Seed: {seed}, Steps: {steps}, CFG: {cfg}\<close>\<close>
  | Saved_to string                   \<comment> \<open>\<open>Saved to {output_path}\<close>\<close>

record process =
  stdout :: "line list"
  dirs :: "string set"

definition print :: "line \<Rightarrow> 'a process_scheme \<Rightarrow> 'a process_scheme" where
  "print l w = w\<lparr>stdout := stdout w @ [l]\<rparr>"

definition parents :: "string \<Rightarrow> string list" where
  \<comment> \<open>the proper ancestors of a path, the root apart\<close>
  "parents p = map (\<lambda>n. take n p) (filter (\<lambda>n. p ! n = CHR ''/'') [1..<length p])"

definition makedirs :: "string \<Rightarrow> string set \<Rightarrow> string set" where
  \<comment> \<open>\<open>os.makedirs(p)\<close>: the directory and every missing ancestor\<close>
  "makedirs p ds = ds \<union> set (parents p) \<union> {p}"

record datetime =
  year :: nat
  month :: nat
  day :: nat
  hour :: nat
  minute :: nat
  second :: nat

definition timestamp :: "datetime \<Rightarrow> string" where
  \<comment> \<open>\<open>now.strftime("%Y%m%d-%H%mmss")\<close>: \<open>%m\<close> is the month, \<open>mss\<close> is literal text;
      \<open>%Y\<close> is the year in decimal, four digits from the year 1000 on\<close>
  "timestamp now =
     str_nat (year now) @ zfill 2 (str_nat (month now)) @ zfill 2 (str_nat (day now)) @ ''-''
     @ zfill 2 (str_nat (hour now)) @ zfill 2 (str_nat (month now)) @ ''mss''"

section \<open>z\_image\_batch.py\<close>

type_synonym image = string

type_synonym pipeline =
  "string \<Rightarrow> string \<Rightarrow> int \<Rightarrow> int \<Rightarrow> int \<Rightarrow> rat \<Rightarrow> int \<Rightarrow> image option"
  \<comment> \<open>the generation capability, of prompt, negative prompt, width, height, steps,
      guidance scale and seed; \<open>None\<close> when it raises\<close>

record args =
  arg_Prompt :: "string option"
  arg_PromptJsonFile :: "string option"
  arg_Width :: int
  arg_Height :: int
  arg_NegativePrompt :: string
  arg_OutputPath :: string
  arg_Steps :: int
  arg_CFG :: rat
  arg_Seed :: int
  arg_Model :: string
  arg_DelaySeconds :: int

record job =
  j_prompt :: string
  j_negative_prompt :: string
  j_width :: int
  j_height :: int
  j_output_path :: string
  j_seed :: int
  j_steps :: int
  j_cfg :: rat

text \<open>
  What the script reads from outside: the directory of the script, the result of loading
  the model (\<open>None\<close> when loading raises), the successive readings of the clock and the
  successive raw draws of the random generator.
\<close>

record env =
  script_dir :: string
  load_pipeline :: "string \<Rightarrow> pipeline option"
  clock :: "nat \<Rightarrow> datetime"
  rand :: "nat \<Rightarrow> nat"

record batch = process +
  manifests :: "string \<Rightarrow> manifest_file"
  images :: "string \<rightharpoonup> image"
  slept :: "int list"
  clock_reads :: nat
  rand_draws :: nat




definition keyword_of :: "entry \<Rightarrow> string" where
  \<comment> \<open>lines 109 to 115\<close>
  "keyword_of item =
     (if truthy (item_tags item) then lower (join ''_'' (the (item_tags item)))
      else if truthy (item_title item)
        then replace_char (CHR '' '') (CHR ''_'') (lower (the (item_title item)))
      else if truthy (item_description item)
        then lower (join ''_'' (take 2 (split (the (item_description item)))))
      else ''image'')"

definition id_prefix :: "entry \<Rightarrow> string" where
  \<comment> \<open>line 120\<close>
  "id_prefix item = (if truthy (item_id item) then the (item_id item) @ ''_'' else [])"

definition filename_of :: "args \<Rightarrow> datetime \<Rightarrow> entry \<Rightarrow> string" where
  \<comment> \<open>lines 105 to 122\<close>
  "filename_of a now item =
     (let w = get (item_Width item) (arg_Width a);
          h = get (item_Height item) (arg_Height a);
          keyword = sanitize (keyword_of item)
      in id_prefix item @ keyword @ ''_'' @ str_int w @ ''x'' @ str_int h @ ''_''
         @ timestamp now @ ''.png'')"

definition p_text :: "entry \<Rightarrow> string option" where
  \<comment> \<open>line 100: \<open>or\<close> yields its first truthy operand, else its last\<close>
  "p_text item =
     (if truthy (item_Prompt item) then item_Prompt item
      else if truthy (item_description item) then item_description item
      else item_title item)"

definition build_job :: "args \<Rightarrow> string \<Rightarrow> datetime \<Rightarrow> entry \<Rightarrow> job" where
  \<comment> \<open>lines 124 to 133\<close>
  "build_job a output_dir now item =
     \<lparr>j_prompt = the (p_text item),
      j_negative_prompt = get (item_NegativePrompt item) (arg_NegativePrompt a),
      j_width = get (item_Width item) (arg_Width a),
      j_height = get (item_Height item) (arg_Height a),
      j_output_path = path_join output_dir (filename_of a now item),
      j_seed = get (item_Seed item) (arg_Seed a),
      j_steps = get (item_Steps item) (arg_Steps a),
      j_cfg = get (item_CFG item) (arg_CFG a)\<rparr>"

fun build_jobs ::
  "env \<Rightarrow> args \<Rightarrow> string \<Rightarrow> entry list \<Rightarrow> job list \<times> batch \<Rightarrow> job list \<times> batch" where
  \<comment> \<open>the loop of lines 98 to 133 over \<open>prompts_to_process\<close> and the state\<close>
  "build_jobs e a output_dir [] (jobs, s) = (jobs, s)"
| "build_jobs e a output_dir (item # items) (jobs, s) =
     (if \<not> truthy (p_text item) then build_jobs e a output_dir items (jobs, s)
      else build_jobs e a output_dir items
             (jobs @ [build_job a output_dir (clock e (clock_reads s)) item],
              s\<lparr>clock_reads := Suc (clock_reads s)\<rparr>))"

definition normalize_dims :: "job \<Rightarrow> batch \<Rightarrow> job \<times> batch" where
  \<comment> \<open>lines 144 to 149\<close>
  "normalize_dims p s =
     (let orig_w = j_width p; orig_h = j_height p;
          p' = p\<lparr>j_width := round16 (j_width p), j_height := round16 (j_height p)\<rparr>
      in if j_width p' \<noteq> orig_w \<or> j_height p' \<noteq> orig_h
         then (p', print (Adjusted_dimensions orig_w orig_h (j_width p') (j_height p')) s)
         else (p', s))"





section \<open>organize\_assets.py\<close>

record staged_file =
  content :: string
  metadata :: nat

text \<open>
  The script works in three places: the manifest at \<open>assets/graphics_batch.json\<close>, the
  listing of \<open>backgrounds\<close> (the names in the order \<open>os.listdir\<close> returns them, each with
  its file; \<open>None\<close> when the directory is missing), and the files it writes, by path.
  The copies land under \<open>assets/textures\<close>, so they do not change the listing.
\<close>

record reconciler = process +
  manifest :: manifest_file
  source :: "(string \<times> staged_file) list option"
  store :: "string \<rightharpoonup> staged_file"

definition candidates_of :: "string list \<Rightarrow> string \<Rightarrow> string list" where
  \<comment> \<open>lines 42 to 45\<close>
  "candidates_of files img_id =
     fold (\<lambda>filename candidates.
             if startswith filename img_id then candidates @ [filename] else candidates)
          files []"

fun organize_loop ::
  "string \<Rightarrow> string \<Rightarrow> (string \<times> staged_file) list \<Rightarrow> string list \<Rightarrow> entry list
     \<Rightarrow> nat \<times> reconciler \<Rightarrow> exn option \<times> nat \<times> reconciler" where
  \<comment> \<open>the loop of lines 36 to 63 over \<open>moved_count\<close> and the state\<close>
  "organize_loop source_dir target_dir src files [] (moved_count, w) = (None, moved_count, w)"
| "organize_loop source_dir target_dir src files (prompt # prompts) (moved_count, w) =
     (case item_id prompt of
        None \<Rightarrow> (Some KeyError, moved_count, w)
      | Some img_id \<Rightarrow>
          (case candidates_of files img_id of
             [] \<Rightarrow> organize_loop source_dir target_dir src files prompts
                     (moved_count, print (No_file_found img_id) w)
           | best_candidate # _ \<Rightarrow>
               (let src_path = path_join source_dir best_candidate;
                    dest_filename = img_id @ ''.png'';
                    dest_path = path_join target_dir dest_filename
                in case map_of src best_candidate of
                     None \<Rightarrow> (Some FileNotFoundError, moved_count, w)
                   | Some f \<Rightarrow>
                       organize_loop source_dir target_dir src files prompts
                         (moved_count + 1,
                          print (Copied best_candidate dest_filename)
                            (w\<lparr>store := (store w)(dest_path \<mapsto> f)\<rparr>)))))"

definition source_dir_of :: "string \<Rightarrow> string" where
  \<comment> \<open>line 9\<close>
  "source_dir_of base_dir = path_join base_dir ''backgrounds''"

definition target_dir_of :: "string \<Rightarrow> string" where
  \<comment> \<open>line 10\<close>
  "target_dir_of base_dir = path_join (path_join base_dir ''assets'') ''textures''"

definition create_target_directory :: "string \<Rightarrow> reconciler \<Rightarrow> reconciler" where
  \<comment> \<open>lines 14 to 16\<close>
  "create_target_directory target_dir w =
     (if target_dir \<notin> dirs w
      then print (Created_directory target_dir) (w\<lparr>dirs := makedirs target_dir (dirs w)\<rparr>)
      else w)"

definition organize_assets :: "string \<Rightarrow> reconciler \<Rightarrow> exn option \<times> reconciler" where
  \<comment> \<open>the argument is \<open>os.getcwd()\<close>\<close>
  "organize_assets base_dir w =
     (let source_dir = source_dir_of base_dir;
          target_dir = target_dir_of base_dir;
          w1 = create_target_directory target_dir w
      in case manifest w1 of
           NoFile \<Rightarrow> (None, print Manifest_not_found w1)
         | BadJson \<Rightarrow> (Some JSONDecodeError, w1)
         | Json data \<Rightarrow>
             (case data of
                JObject kv \<Rightarrow>
                  (let prompts = get (map_of kv ''image_prompts'') (JArray [])
                   in case source w1 of
                        None \<Rightarrow> (Some FileNotFoundError, w1)
                      | Some src \<Rightarrow>
                          (let files = map fst src;
                               w2 = print (Found_files (length files)) w1
                           in case prompts of
                                JArray es \<Rightarrow>
                                  (case organize_loop source_dir target_dir src files es (0, w2) of
                                     (Some x, moved_count, w3) \<Rightarrow> (Some x, w3)
                                   | (None, moved_count, w3) \<Rightarrow>
                                       (None, print (Organized moved_count) w3))
                              | JObject ks \<Rightarrow>
                                  (if ks = [] then (None, print (Organized 0) w2)
                                   else (Some TypeError, w2))
                              | JString t \<Rightarrow>
                                  (if t = [] then (None, print (Organized 0) w2)
                                   else (Some TypeError, w2))
                              | JAtom \<Rightarrow> (Some TypeError, w2)))
              | _ \<Rightarrow> (Some AttributeError, w1)))"

section \<open>The reconciliation as the specification words it\<close>

definition candidates :: "(string \<times> staged_file) list \<Rightarrow> string \<Rightarrow> string list" where
  \<comment> \<open>all filenames of the listing that begin with the identifier, in listing order\<close>
  "candidates src i = filter (\<lambda>name. startswith name i) (map fst src)"

definition placed ::
  "string \<Rightarrow> (string \<times> staged_file) list \<Rightarrow> string \<Rightarrow> (string \<rightharpoonup> staged_file)
     \<Rightarrow> (string \<rightharpoonup> staged_file)" where
  \<comment> \<open>the files after one identifier: unchanged without a candidate, else with the first
      candidate's file, content and metadata, at \<open>destDir/{identifier}.png\<close>\<close>
  "placed dest_dir src i m =
     (case candidates src i of
        [] \<Rightarrow> m
      | name # _ \<Rightarrow> m(path_join dest_dir (i @ ''.png'') := map_of src name))"

definition reported_line :: "(string \<times> staged_file) list \<Rightarrow> string \<Rightarrow> line" where
  \<comment> \<open>the line printed for one identifier: the warning, or the copy\<close>
  "reported_line src i =
     (case candidates src i of
        [] \<Rightarrow> No_file_found i
      | name # _ \<Rightarrow> Copied name (i @ ''.png''))"


section \<open>Concrete inputs\<close>

definition default_args :: args where
  \<comment> \<open>the defaults of the argument parser, lines 50 to 60\<close>
  "default_args =
     \<lparr>arg_Prompt = None, arg_PromptJsonFile = None, arg_Width = 1024, arg_Height = 1024,
      arg_NegativePrompt = ''bad hands, blurry, low quality'',
      arg_OutputPath = ''generated_image.png'', arg_Steps = 9, arg_CFG = 0, arg_Seed = - 1,
      arg_Model = ''Tongyi-MAI/Z-Image-Turbo'', arg_DelaySeconds = 0\<rparr>"

definition blank_entry :: entry where
  \<comment> \<open>the JSON object with no key\<close>
  "blank_entry =
     \<lparr>item_id = None, item_Prompt = None, item_description = None, item_title = None,
      item_tags = None, item_NegativePrompt = None, item_Width = None, item_Height = None,
      item_Seed = None, item_Steps = None, item_CFG = None\<rparr>"

definition tenant_student :: entry where
  \<comment> \<open>\<open>{"id": "tenant_student", "title": "Tenant Student"}\<close>\<close>
  "tenant_student =
     blank_entry\<lparr>item_id := Some ''tenant_student'', item_title := Some ''Tenant Student''\<rparr>"

definition wide_job :: job where
  "wide_job =
     \<lparr>j_prompt = ''a city at night'', j_negative_prompt = ''blurry'', j_width = 1000,
      j_height = 520, j_output_path = ''out.png'', j_seed = 7, j_steps = 9, j_cfg = 0\<rparr>"

definition idle_batch :: batch where
  \<comment> \<open>nothing printed, no directory, no manifest, nothing written\<close>
  "idle_batch =
     \<lparr>stdout = [], dirs = {}, manifests = (\<lambda>path. NoFile), images = Map.empty, slept = [],
      clock_reads = 0, rand_draws = 0\<rparr>"

definition new_year :: datetime where
  "new_year = \<lparr>year = 2024, month = 1, day = 1, hour = 0, minute = 0, second = 0\<rparr>"

definition blank_pipeline :: pipeline where
  \<comment> \<open>a capability that returns the same picture for every request\<close>
  "blank_pipeline = (\<lambda>prompt negative_prompt width height steps cfg seed. Some ''PNG'')"

definition still_env :: env where
  \<comment> \<open>the model loads, the clock stands at one instant, every raw draw is 0\<close>
  "still_env =
     \<lparr>script_dir = ''/app'', load_pipeline = (\<lambda>model_id. Some blank_pipeline),
      clock = (\<lambda>k. new_year), rand = (\<lambda>k. 0)\<rparr>"

definition staged_png :: staged_file where
  "staged_png = \<lparr>content = ''PNG of a student'', metadata = 1704067200\<rparr>"

definition studio :: reconciler where
  \<comment> \<open>scenario A of the specification: one entry, one staged file, no texture directory\<close>
  "studio =
     \<lparr>stdout = [], dirs = {''/app'', ''/app/backgrounds''},
      manifest = Json (JObject [(''image_prompts'', JArray [tenant_student])]),
      source = Some [(''tenant_student_tenant_student_512x512_20240101-0000.png'', staged_png)],
      store = Map.empty\<rparr>"

section \<open>Properties of z\_image\_batch.py\<close>

subsection \<open>Dimension normalisation\<close>

lemma round16_floor: "round16 x = \<lfloor>real_of_int x / 16\<rfloor> * 16"
  using floor_divide_of_int_eq[of x 16, where ?'a = real] by (simp add: round16_def)

lemma round16_le: "round16 x \<le> x"
  unfolding round16_def by presburger

lemma round16_dvd: "16 dvd round16 x"
  by (simp add: round16_def)

lemma round16_changed: "round16 x \<noteq> x \<longleftrightarrow> \<not> 16 dvd x"
  unfolding round16_def by presburger

text \<open>
  C3. For positive width and height, the normalisation of lines 144 to 149 returns
  \<open>floor(w/16)*16\<close> and \<open>floor(h/16)*16\<close>; each result is at most its input and a
  multiple of 16; a result differs from its input exactly when the input was not a
  multiple of 16; and then, and only then, one warning is printed, which names the two
  original and the two adjusted values.
\<close>

theorem normalize_dims_spec:
  assumes "0 < j_width p" and "0 < j_height p"
  shows "j_width (fst (normalize_dims p s)) = \<lfloor>real_of_int (j_width p) / 16\<rfloor> * 16
    \<and> j_height (fst (normalize_dims p s)) = \<lfloor>real_of_int (j_height p) / 16\<rfloor> * 16
    \<and> j_width (fst (normalize_dims p s)) \<le> j_width p
    \<and> j_height (fst (normalize_dims p s)) \<le> j_height p
    \<and> 16 dvd j_width (fst (normalize_dims p s))
    \<and> 16 dvd j_height (fst (normalize_dims p s))
    \<and> (j_width (fst (normalize_dims p s)) \<noteq> j_width p \<longleftrightarrow> \<not> 16 dvd j_width p)
    \<and> (j_height (fst (normalize_dims p s)) \<noteq> j_height p \<longleftrightarrow> \<not> 16 dvd j_height p)
    \<and> stdout (snd (normalize_dims p s)) =
        stdout s @ (if 16 dvd j_width p \<and> 16 dvd j_height p then []
                    else [Adjusted_dimensions (j_width p) (j_height p)
                            (j_width (fst (normalize_dims p s)))
                            (j_height (fst (normalize_dims p s)))])"
proof -
  have w: "j_width (fst (normalize_dims p s)) = round16 (j_width p)"
    and h: "j_height (fst (normalize_dims p s)) = round16 (j_height p)"
    by (simp_all add: normalize_dims_def Let_def)
  have out: "stdout (snd (normalize_dims p s)) =
      stdout s @ (if round16 (j_width p) \<noteq> j_width p \<or> round16 (j_height p) \<noteq> j_height p
                  then [Adjusted_dimensions (j_width p) (j_height p)
                          (round16 (j_width p)) (round16 (j_height p))]
                  else [])"
    by (simp add: normalize_dims_def Let_def print_def)
  show ?thesis
    unfolding w h out
    using round16_floor round16_le round16_dvd round16_changed by auto
qed

theorem normalize_dims_spec_witness:
  "0 < j_width wide_job \<and> 0 < j_height wide_job
   \<and> j_width (fst (normalize_dims wide_job idle_batch)) = 992
   \<and> j_height (fst (normalize_dims wide_job idle_batch)) = 512
   \<and> stdout (snd (normalize_dims wide_job idle_batch)) = [Adjusted_dimensions 1000 520 992 512]"
  using normalize_dims_spec[of wide_job idle_batch]
  by (simp add: wide_job_def idle_batch_def)

subsection \<open>Seed resolution\<close>




subsection \<open>Keyword sanitisation\<close>

lemma class_ascii:
  "of_char c < (128::nat) \<Longrightarrow>
     (isalnum c \<or> c = CHR ''_'' \<or> c = CHR ''-'') = in_keyword_class c"
  unfolding isalnum_def in_keyword_class_def Let_def by auto

text \<open>
  C7, as the code has it. On a string of ASCII characters the sanitisation keeps exactly
  the characters of the class \<open>[A-Za-z0-9_-]\<close>, in their order, and drops the others.
\<close>

theorem sanitize_ascii:
  assumes "\<forall>c\<in>set s. of_char c < (128::nat)"
  shows "sanitize s = filter in_keyword_class s"
  unfolding sanitize_def using assms class_ascii by (intro filter_cong) auto

theorem sanitize_ascii_witness:
  "sanitize ''sci-fi!!_city 2'' = ''sci-fi_city2''
   \<and> filter in_keyword_class ''sci-fi!!_city 2'' = ''sci-fi_city2''"
  using sanitize_ascii[of "''sci-fi!!_city 2''"] by (simp add: in_keyword_class_def)

text \<open>
  C7 as the claim states it fails beyond ASCII: \<open>str.isalnum\<close> holds of the letters and
  digits of every script, so the four code points of \<open>caf\<close> followed by e-acute (U+00E9)
  are all kept, where the class \<open>[A-Za-z0-9_-]\<close> keeps three.
\<close>

theorem sanitize_keeps_non_ascii:
  "sanitize [CHR ''c'', CHR ''a'', CHR ''f'', CHR 0xE9] = [CHR ''c'', CHR ''a'', CHR ''f'', CHR 0xE9]
   \<and> filter in_keyword_class [CHR ''c'', CHR ''a'', CHR ''f'', CHR 0xE9] = ''caf''"
  by (simp add: sanitize_def isalnum_def in_keyword_class_def)

subsection \<open>Staging filenames\<close>

lemma timestamp_ignores_minute:
  "timestamp (now\<lparr>minute := m, second := sec\<rparr>) = timestamp now"
  by (simp add: timestamp_def)

text \<open>
  C5. The filename has the form the claim gives, but its timestamp does not have the
  granularity of a minute: the format \<open>%Y%m%d-%H%mmss\<close> renders the month where the
  minute was meant and the letters \<open>mss\<close> where the seconds were. Two entries built at
  10:05:00 and at 10:47:30 of the same day get the same filename.
\<close>

theorem filename_same_within_hour:
  "filename_of default_args
     \<lparr>year = 2024, month = 1, day = 1, hour = 10, minute = 5, second = 0\<rparr> tenant_student
     = ''tenant_student_tenant_student_1024x1024_20240101-1001mss.png''
   \<and> filename_of default_args
     \<lparr>year = 2024, month = 1, day = 1, hour = 10, minute = 47, second = 30\<rparr> tenant_student
     = ''tenant_student_tenant_student_1024x1024_20240101-1001mss.png''"
  by code_simp

subsection \<open>Entries without prompt text\<close>

lemma build_jobs_append:
  "build_jobs e a od (xs @ ys) st = build_jobs e a od ys (build_jobs e a od xs st)"
proof (induction xs arbitrary: st)
  case Nil
  then show ?case by (cases st) simp
next
  case (Cons x xs)
  then show ?case by (cases st) simp
qed

lemma p_text_empty:
  "\<not> truthy (p_text item) \<longleftrightarrow>
     \<not> truthy (item_Prompt item) \<and> \<not> truthy (item_description item) \<and> \<not> truthy (item_title item)"
  by (simp add: p_text_def)

text \<open>
  C6, as the code has it. An entry none of whose fields \<open>Prompt\<close>, \<open>description\<close> and
  \<open>title\<close> holds a non-empty text is skipped silently: wherever it stands in the manifest,
  the queue and the whole state, the printed lines included, are those of the manifest
  without it, so the entries before and after it are built as if it were not there.
\<close>

theorem skip_entry_without_prompt:
  assumes "\<not> truthy (item_Prompt item)" and "\<not> truthy (item_description item)"
    and "\<not> truthy (item_title item)"
  shows "build_jobs e a od (pre @ item # post) (jobs, s) = build_jobs e a od (pre @ post) (jobs, s)"
proof -
  have skip: "\<not> truthy (p_text item)"
    using assms by (simp add: p_text_empty)
  obtain jobs' s' where pre: "build_jobs e a od pre (jobs, s) = (jobs', s')"
    by (cases "build_jobs e a od pre (jobs, s)")
  show ?thesis
    using skip by (simp add: build_jobs_append pre)
qed

theorem skip_entry_without_prompt_witness:
  "build_jobs still_env default_args ''/app/backgrounds'' [tenant_student, blank_entry]
     ([], idle_batch)
   = build_jobs still_env default_args ''/app/backgrounds'' [tenant_student] ([], idle_batch)"
  using skip_entry_without_prompt[where item = blank_entry and e = still_env
      and a = default_args and od = "''/app/backgrounds''" and pre = "[tenant_student]"
      and post = "[]" and jobs = "[]" and s = idle_batch]
  by (simp add: blank_entry_def truthy_def)

text \<open>
  C6 as the claim states it asks for a warning. The loop of lines 98 to 102 only
  \<open>continue\<close>s: for the manifest of one entry without any key, nothing is printed and the
  state is untouched.
\<close>

theorem skip_prints_nothing:
  "build_jobs still_env default_args ''/app/backgrounds'' [blank_entry] ([], idle_batch)
     = ([], idle_batch)
   \<and> stdout (snd (build_jobs still_env default_args ''/app/backgrounds'' [blank_entry]
        ([], idle_batch))) = []"
  by (simp add: blank_entry_def truthy_def p_text_def idle_batch_def)

section \<open>Properties of organize\_assets.py\<close>

subsection \<open>The loop over the manifest\<close>

lemma store_stdout_swap:
  fixes w :: reconciler
  shows "w\<lparr>store := m, stdout := out\<rparr> = w\<lparr>stdout := out, store := m\<rparr>"
  by simp

lemma candidates_of_acc:
  "fold (\<lambda>filename candidates.
           if startswith filename i then candidates @ [filename] else candidates) files acc
   = acc @ filter (\<lambda>name. startswith name i) files"
  by (induction files arbitrary: acc) simp_all

lemma candidates_of_filter:
  "candidates_of files i = filter (\<lambda>name. startswith name i) files"
  by (simp add: candidates_of_def candidates_of_acc)

lemma candidate_in_listing:
  assumes "filter P (map fst src) = name # rest"
  shows "\<exists>f. map_of src name = Some f"
proof -
  have "name \<in> set (filter P (map fst src))" using assms by simp
  then have "name \<in> fst ` set src" by auto
  then show ?thesis by (metis map_of_eq_None_iff not_Some_eq)
qed

lemma organize_step_none:
  assumes "item_id e = Some i" and "candidates src i = []"
  shows "organize_loop sd td src (map fst src) (e # es) (n, w) =
     organize_loop sd td src (map fst src) es (n, w\<lparr>stdout := stdout w @ [reported_line src i]\<rparr>)"
    and "placed td src i m = m"
  using assms
  by (simp_all add: candidates_of_filter candidates_def placed_def reported_line_def print_def)

lemma organize_step_copy:
  assumes "item_id e = Some i" and "candidates src i = name # rest"
  shows "organize_loop sd td src (map fst src) (e # es) (n, w) =
     organize_loop sd td src (map fst src) es
       (Suc n, w\<lparr>stdout := stdout w @ [reported_line src i],
                 store := placed td src i (store w)\<rparr>)"
proof -
  obtain f where f: "map_of src name = Some f"
    using candidate_in_listing[of "\<lambda>name. startswith name i" src name rest] assms(2)
    by (auto simp: candidates_def)
  show ?thesis
    using assms f
    by (simp add: candidates_of_filter candidates_def placed_def reported_line_def print_def
        Let_def store_stdout_swap)
qed

lemma organize_loop_ids:
  "map item_id es = map Some ids \<Longrightarrow>
   organize_loop sd td src (map fst src) es (n, w) =
     (None, n + length (filter (\<lambda>i. candidates src i \<noteq> []) ids),
      w\<lparr>stdout := stdout w @ map (reported_line src) ids,
        store := fold (placed td src) ids (store w)\<rparr>)"
proof (induction es arbitrary: ids n w)
  case Nil
  then show ?case by simp
next
  case (Cons e es)
  then obtain i ids' where ids: "ids = i # ids'" and e: "item_id e = Some i"
    and rest: "map item_id es = map Some ids'"
    by (cases ids) auto
  show ?case
  proof (cases "candidates src i")
    case Nil
    show ?thesis
      unfolding organize_step_none(1)[OF e Nil] Cons.IH[OF rest] ids
      by (simp add: Nil organize_step_none(2)[OF e Nil])
  next
    case (Cons name rest')
    show ?thesis
      unfolding organize_step_copy[OF e Cons] Cons.IH[OF rest] ids
      by (simp add: Cons)
  qed
qed



lemma create_target_directory_fields [simp]:
  "manifest (create_target_directory d w) = manifest w"
  "source (create_target_directory d w) = source w"
  "store (create_target_directory d w) = store w"
  "d \<in> dirs (create_target_directory d w)"
  by (simp_all add: create_target_directory_def print_def makedirs_def)


lemma organize_assets_with_ids:
  assumes "manifest w = Json (JObject kv)"
    and "map_of kv ''image_prompts'' = Some (JArray es)"
    and "map item_id es = map Some ids"
    and "source w = Some src"
  shows "organize_assets base_dir w =
     (None,
      (create_target_directory (target_dir_of base_dir) w)
        \<lparr>stdout := stdout (create_target_directory (target_dir_of base_dir) w)
           @ [Found_files (length src)] @ map (reported_line src) ids
           @ [Organized (length (filter (\<lambda>i. candidates src i \<noteq> []) ids))],
         store := fold (placed (target_dir_of base_dir) src) ids (store w)\<rparr>)"
  using assms
  by (simp add: organize_assets_def Let_def get_def print_def organize_loop_ids store_stdout_swap)

lemma studio_run:
  "organize_assets ''/app'' studio =
     (None,
      studio\<lparr>stdout := [Created_directory ''/app/assets/textures'', Found_files 1,
                 Copied ''tenant_student_tenant_student_512x512_20240101-0000.png''
                   ''tenant_student.png'',
                 Organized 1],
             dirs := {''/app'', ''/app/backgrounds'', ''/app/assets'', ''/app/assets/textures''},
             store := [''/app/assets/textures/tenant_student.png'' \<mapsto> staged_png]\<rparr>)"
  using organize_assets_with_ids[where w = studio
      and kv = "[(''image_prompts'', JArray [tenant_student])]" and es = "[tenant_student]"
      and ids = "[''tenant_student'']"
      and src = "[(''tenant_student_tenant_student_512x512_20240101-0000.png'', staged_png)]"
      and base_dir = "''/app''"]
  by (simp add: studio_def tenant_student_def blank_entry_def create_target_directory_def
      target_dir_of_def path_join_def startswith_def print_def makedirs_def parents_def
      reported_line_def placed_def candidates_def insert_commute)

subsection \<open>Reconciliation in manifest order\<close>



subsection \<open>Entries without an identifier\<close>




subsection \<open>Idempotence\<close>








subsection \<open>The two shapes of a manifest\<close>

text \<open>
  C8. \<open>z_image_batch.py\<close> reads the same entries from a bare array and from an object
  with the key \<open>image_prompts\<close>. \<open>organize_assets.py\<close> calls \<open>data.get\<close> on whatever
  \<open>json.load\<close> returns: on the bare array of scenario A's entry it ends in
  \<open>AttributeError\<close> and copies nothing, where the object shape places one asset.
\<close>

theorem bare_list_rejected_by_reconciler:
  "organize_assets ''/app'' (studio\<lparr>manifest := Json (JArray [tenant_student])\<rparr>) =
     (Some AttributeError,
      studio\<lparr>stdout := [Created_directory ''/app/assets/textures''],
             dirs := {''/app'', ''/app/backgrounds'', ''/app/assets'', ''/app/assets/textures''},
             manifest := Json (JArray [tenant_student])\<rparr>)
   \<and> manifest_items (JArray [tenant_student]) = [tenant_student]
   \<and> manifest_items (JObject [(''image_prompts'', JArray [tenant_student])]) = [tenant_student]
   \<and> fst (organize_assets ''/app'' studio) = None"
  using studio_run
  by (simp add: organize_assets_def studio_def create_target_directory_def target_dir_of_def
      path_join_def startswith_def print_def makedirs_def parents_def insert_commute
      manifest_items_def get_def Let_def)

section \<open>Configuration and parse errors\<close>














end
